theory Spec2Isabelle
  imports Complex_Main
begin

section \<open>Numbers, errors and panics\<close>

text \<open>
  The Go sources compute on \<^verbatim>\<open>float64\<close>.  The embedding idealises a \<^verbatim>\<open>float64\<close> as a
  \<^typ>\<open>real\<close>: rounding, infinities and NaN are outside the model, the control flow, the
  order of the operations and every comparison are those of the source.  A Go \<^verbatim>\<open>error\<close>
  value is an \<open>error\<close>, a run-time panic is a \<open>panic\<close>.  A function that returns
  \<^verbatim>\<open>(value, error)\<close> returns the pair, with \<open>None\<close> for \<^verbatim>\<open>nil\<close>; a function that can
  panic returns \<open>panic + 'a\<close>, with \<open>Inl\<close> for the panic.
\<close>

datatype error =
    MaximumIterations
  | InvalidPlanet
  | ReadFileError string
  | VersionError nat char char
  | BodyError nat string string
  | AtoiError nat string
  | FloatError nat string
  | UnexpectedEOF

datatype panic = IndexOutOfRange | SliceBoundsOutOfRange

text \<open>\<^verbatim>\<open>math.Mod(x, y)\<close>: the remainder of the truncated quotient; it has the sign of \<open>x\<close>.\<close>

definition trunc :: "real \<Rightarrow> int" where
  "trunc x = (if 0 \<le> x then \<lfloor>x\<rfloor> else \<lceil>x\<rceil>)"

definition math_Mod :: "real \<Rightarrow> real \<Rightarrow> real" where
  "math_Mod x y = x - y * of_int (trunc (x / y))"

text \<open>\<^verbatim>\<open>astro.go\<close>, \<^verbatim>\<open>PMod\<close>.\<close>

definition PMod :: "real \<Rightarrow> real \<Rightarrow> real" where
  "PMod x y = (let r = math_Mod x y in if r < 0 then r + y else r)"

section \<open>The Kepler equation solver (\<^verbatim>\<open>solarpos.go\<close>)\<close>

text \<open>
  \<^verbatim>\<open>iterateDecimalPlaces\<close>: the loop \<^verbatim>\<open>for i := 0; i < maxIterations; i++\<close>, with the
  loop variables \<open>i\<close> and \<open>start\<close> as arguments.  On exhaustion the source returns
  \<^verbatim>\<open>0, errors.New("Maximum iterations reached")\<close>.
\<close>

function iterate_loop ::
  "(real \<Rightarrow> real) \<Rightarrow> real \<Rightarrow> int \<Rightarrow> int \<Rightarrow> real \<Rightarrow> real \<times> error option" where
  "iterate_loop better d maxIterations i start =
     (if i < maxIterations then
        (let n = better start in
         if \<bar>n - start\<bar> < d then (n, None)
         else iterate_loop better d maxIterations (i + 1) n)
      else (0, Some MaximumIterations))"
  by pat_completeness auto
termination
  by (relation "measure (\<lambda>(better, d, maxIterations, i, start). nat (maxIterations - i))") auto

declare iterate_loop.simps [simp del]

definition iterateDecimalPlaces ::
  "(real \<Rightarrow> real) \<Rightarrow> real \<Rightarrow> int \<Rightarrow> int \<Rightarrow> real \<times> error option" where
  "iterateDecimalPlaces better start places maxIterations =
     (let d = 10 powr (of_int (- places)) in iterate_loop better d maxIterations 0 start)"

text \<open>The improvement function \<^verbatim>\<open>f\<close> of \<^verbatim>\<open>kepler2b\<close>, with the limit of Steele.\<close>

definition kepler2b_f :: "real \<Rightarrow> real \<Rightarrow> real \<Rightarrow> real" where
  "kepler2b_f e M E0 =
     (let se = sin E0; ce = cos E0;
          d = (M + e * se - E0) / (1 - e * ce);
          d = (if d > 0.5 then 0.5 else if d < - 0.5 then - 0.5 else d)
      in E0 + d)"

definition kepler2b :: "real \<Rightarrow> real \<Rightarrow> int \<Rightarrow> real \<times> error option" where
  "kepler2b e M places = iterateDecimalPlaces (kepler2b_f e M) M places places"

text \<open>
  \<^verbatim>\<open>kepler3\<close>: the loop \<^verbatim>\<open>for i := 0; i < 53; i++\<close> over the variables \<open>E0\<close> and \<open>d\<close>;
  \<open>M\<close> is the reduced mean anomaly.
\<close>

function kepler3_loop :: "real \<Rightarrow> real \<Rightarrow> int \<Rightarrow> real \<Rightarrow> real \<Rightarrow> real \<times> real" where
  "kepler3_loop e M i E0 d =
     (if i < 53 then
        (let M1 = E0 - e * sin E0 in
         if M - M1 < 0 then kepler3_loop e M (i + 1) (E0 - d) (d * 0.5)
         else kepler3_loop e M (i + 1) (E0 + d) (d * 0.5))
      else (E0, d))"
  by pat_completeness auto
termination
  by (relation "measure (\<lambda>(e, M, i, E0, d). nat (53 - i))") auto

declare kepler3_loop.simps [simp del]

definition kepler3 :: "real \<Rightarrow> real \<Rightarrow> real" where
  "kepler3 e M0 =
     (let M = PMod M0 (2 * pi);
          f = (1::int);
          (f, M) = (if M > pi then (- 1, 2 * pi - M) else (f, M));
          E0 = pi * 0.5;
          d = pi * 0.25;
          (E0, d) = kepler3_loop e M 0 E0 d
      in if f < 0 then - E0 else E0)"

text \<open>
  \<^verbatim>\<open>kepler\<close>, as written:
  \<^verbatim>\<open>if E, err := kepler2b(e, M, 15); err != nil { return E }; return kepler3(e, M)\<close>.
\<close>

definition kepler :: "real \<Rightarrow> real \<Rightarrow> real" where
  "kepler e M =
     (case kepler2b e M 15 of
        (E, err) \<Rightarrow> if err \<noteq> None then E else kepler3 e M)"

text \<open>
  The reduction of an angle modulo \<open>2\<pi>\<close> as mathematics has it, with the floor of the
  quotient: the representative of \<open>x\<close> in the canonical range \<open>[0, 2\<pi>)\<close>.  It does not use
  \<open>PMod\<close>.
\<close>

definition mod_2pi :: "real \<Rightarrow> real" where
  "mod_2pi x = x - 2 * pi * of_int \<lfloor>x / (2 * pi)\<rfloor>"

text \<open>
  The bisection as the specification words it: the reduction of the mean anomaly into
  \<open>[0, \<pi>]\<close> by the symmetry \<open>E(2\<pi> - M) = - E(M)\<close> with the recorded sign flip, one halving
  step, and 53 steps from \<open>(\<pi>/2, \<pi>/4)\<close>.  Where the implied mean anomaly equals the target
  the specification leaves the direction open; the step moves up there.
\<close>

definition reduce_anomaly :: "real \<Rightarrow> bool \<times> real" where
  "reduce_anomaly M =
     (let m = mod_2pi M in if pi < m then (True, 2 * pi - m) else (False, m))"

definition halving_step :: "real \<Rightarrow> real \<Rightarrow> real \<times> real \<Rightarrow> real \<times> real" where
  "halving_step e M =
     (\<lambda>(E, step). let implied = E - e * sin E
                   in (if M < implied then E - step else E + step, step / 2))"

definition bisection_spec :: "real \<Rightarrow> real \<Rightarrow> real" where
  "bisection_spec e M =
     (let (flip, m) = reduce_anomaly M;
          (E, step) = (halving_step e m ^^ 53) (pi / 2, pi / 4)
      in if flip then - E else E)"

section \<open>Horner evaluation (\<^verbatim>\<open>astro.go\<close>)\<close>

text \<open>An index expression \<^verbatim>\<open>c[i]\<close> on a slice panics outside \<open>0 \<le> i < len(c)\<close>.\<close>

definition index :: "'a list \<Rightarrow> int \<Rightarrow> panic + 'a" where
  "index c i = (if 0 \<le> i \<and> i < int (length c) then Inr (c ! nat i) else Inl IndexOutOfRange)"

text \<open>The loop \<^verbatim>\<open>for i > 0 { i--; y = y*x + c[i] }\<close>.\<close>

function Horner_loop :: "real \<Rightarrow> real list \<Rightarrow> int \<Rightarrow> real \<Rightarrow> panic + real" where
  "Horner_loop x c i y =
     (if i > 0 then
        (case index c (i - 1) of
           Inl p \<Rightarrow> Inl p
         | Inr ci \<Rightarrow> Horner_loop x c (i - 1) (y * x + ci))
      else Inr y)"
  by pat_completeness auto
termination
  by (relation "measure (\<lambda>(x, c, i, y). nat i)") auto

declare Horner_loop.simps [simp del]

definition Horner :: "real \<Rightarrow> real list \<Rightarrow> panic + real" where
  "Horner x c =
     (let i = int (length c) - 1 in
      case index c i of
        Inl p \<Rightarrow> Inl p
      | Inr y \<Rightarrow> Horner_loop x c i y)"

section \<open>The series evaluator (\<^verbatim>\<open>Position2000\<close>)\<close>

text \<open>
  \<^verbatim>\<open>type abc struct { a, b, c float64 }\<close>, \<^verbatim>\<open>type coeff [6][]abc\<close> and
  \<^verbatim>\<open>type V87Planet struct { l, b, r coeff }\<close>.  The array of six slices is a constructor
  of six lists, so that its length is fixed by the type as in the source; \<open>slots\<close> lists
  the six slices in index order.  The one-letter field names carry a prefix.
\<close>

datatype abc = Abc (abc_a: real) (abc_b: real) (abc_c: real)

datatype coeff = Coeff "abc list" "abc list" "abc list" "abc list" "abc list" "abc list"

fun slots :: "coeff \<Rightarrow> abc list list" where
  "slots (Coeff t0 t1 t2 t3 t4 t5) = [t0, t1, t2, t3, t4, t5]"

definition len_coeff :: "coeff \<Rightarrow> nat" where
  "len_coeff series = length (slots series)"

datatype V87Planet = V87Planet (planet_l: coeff) (planet_b: coeff) (planet_r: coeff)

definition J2000 :: real where
  "J2000 = 2451545.0"

definition JulianCentury :: real where
  "JulianCentury = 36525"

definition J2000Century :: "real \<Rightarrow> real" where
  "J2000Century jde = (jde - J2000) / JulianCentury"

text \<open>
  The inner loop \<^verbatim>\<open>for y := len(terms) - 1; y >= 0; y--\<close> adds the terms to \<^verbatim>\<open>cf[x]\<close>,
  which starts at 0, from the last one to the first one: a right fold.
\<close>

definition term_value :: "real \<Rightarrow> abc \<Rightarrow> real" where
  "term_value \<tau> t = abc_a t * cos (abc_b t + abc_c t * \<tau>)"

definition sum_terms :: "real \<Rightarrow> abc list \<Rightarrow> real" where
  "sum_terms \<tau> terms = foldr (\<lambda>t acc. acc + term_value \<tau> t) terms 0"

text \<open>The slice \<^verbatim>\<open>cf\<close> after the loop \<^verbatim>\<open>for x, terms := range series\<close>.\<close>

definition cf_of :: "real \<Rightarrow> coeff \<Rightarrow> real list" where
  "cf_of \<tau> series = map (sum_terms \<tau>) (slots series)"

text \<open>The closure \<^verbatim>\<open>sum\<close>: it ends with \<^verbatim>\<open>Horner(\<tau>, cf[:len(series)]...)\<close>.\<close>

definition horner_args :: "real \<Rightarrow> coeff \<Rightarrow> real list" where
  "horner_args \<tau> series = take (len_coeff series) (cf_of \<tau> series)"

definition sum_series :: "real \<Rightarrow> coeff \<Rightarrow> panic + real" where
  "sum_series \<tau> series = Horner \<tau> (horner_args \<tau> series)"

text \<open>
  Modelled from the spec: \<^verbatim>\<open>unit.Angle.Mod1\<close> of the package \<^verbatim>\<open>github.com/soniakeys/unit\<close>,
  which is not among the sources.  The specification names it the modulo reduction of the
  angle abstraction, to the canonical range \<open>[0, 2\<pi>)\<close>; it is modelled by the positive
  modulo helper \<open>PMod\<close> of \<^verbatim>\<open>astro.go\<close> at \<open>2\<pi>\<close>.
\<close>

definition Mod1 :: "real \<Rightarrow> real" where
  "Mod1 a = PMod a (2 * pi)"

definition Position2000 :: "V87Planet \<Rightarrow> real \<Rightarrow> panic + (real \<times> real \<times> real)" where
  "Position2000 vt jde =
     (let T = J2000Century jde;
          \<tau> = T * 0.1
      in case sum_series \<tau> (planet_l vt) of
           Inl p \<Rightarrow> Inl p
         | Inr L \<Rightarrow>
             (case sum_series \<tau> (planet_b vt) of
                Inl p \<Rightarrow> Inl p
              | Inr B \<Rightarrow>
                  (case sum_series \<tau> (planet_r vt) of
                     Inl p \<Rightarrow> Inl p
                   | Inr R \<Rightarrow> Inr (Mod1 L, B, R))))"

text \<open>
  What the specification asks of the evaluator: the reduced time \<open>\<tau>\<close>, centuries over 10;
  the value of the polynomial in \<open>\<tau>\<close> whose coefficient of \<open>\<tau>\<^sup>i\<close> is the sum of the terms of
  power \<open>i\<close>; and the number of populated slots of a table.
\<close>

definition reduced_time :: "real \<Rightarrow> real" where
  "reduced_time jde = J2000Century jde / 10"

definition series_value :: "real \<Rightarrow> coeff \<Rightarrow> real" where
  "series_value \<tau> series = (\<Sum>i<6. (\<Sum>t\<leftarrow>slots series ! i. term_value \<tau> t) * \<tau> ^ i)"

definition populated :: "coeff \<Rightarrow> nat" where
  "populated series = length (filter (\<lambda>terms. terms \<noteq> []) (slots series))"

section \<open>The orbit model (\<^verbatim>\<open>solarpos.go\<close>)\<close>

text \<open>
  \<^verbatim>\<open>math.Atan2\<close> and \<^verbatim>\<open>math.Hypot\<close> of the Go library, on the reals (there is no signed
  zero; \<open>Atan2 0 0 = 0\<close>).
\<close>

definition Atan2 :: "real \<Rightarrow> real \<Rightarrow> real" where
  "Atan2 y x =
     (if 0 < x then arctan (y / x)
      else if x < 0 then (if 0 \<le> y then arctan (y / x) + pi else arctan (y / x) - pi)
      else if 0 < y then pi / 2
      else if y < 0 then - (pi / 2)
      else 0)"

definition Hypot :: "real \<Rightarrow> real \<Rightarrow> real" where
  "Hypot p q = sqrt (p * p + q * q)"

definition K :: real where
  "K = 0.01720209895"

definition SOblJ2000 :: real where
  "SOblJ2000 = 0.397777156"

definition COblJ2000 :: real where
  "COblJ2000 = 0.917482062"

record Elements =
  Axis :: real
  Ecc :: real
  Inc :: real
  ArgP :: real
  Node :: real
  TimeP :: real

text \<open>
  \<^verbatim>\<open>type Orbit struct { k *Elements; n float64; _A, _B, _C float64; a, b, c float64 }\<close>;
  the fields carry the prefix \<open>orb\<close>, and the pointer \<open>k\<close> is the value it points to.
\<close>

record Orbit =
  orb_k :: Elements
  orb_n :: real
  orb_A :: real
  orb_B :: real
  orb_C :: real
  orb_a :: real
  orb_b :: real
  orb_c :: real

definition NewOrbit :: "Elements \<Rightarrow> Orbit" where
  "NewOrbit k =
     (let s\<epsilon> = SOblJ2000;
          c\<epsilon> = COblJ2000;
          s\<Omega> = sin (Node k); c\<Omega> = cos (Node k);
          si = sin (Inc k); ci = cos (Inc k);
          F = c\<Omega>;
          G = s\<Omega> * c\<epsilon>;
          H = s\<Omega> * s\<epsilon>;
          P = - s\<Omega> * ci;
          Q = c\<Omega> * ci * c\<epsilon> - si * s\<epsilon>;
          R = c\<Omega> * ci * s\<epsilon> + si * c\<epsilon>
      in \<lparr> orb_k = k,
           orb_n = K / Axis k / sqrt (Axis k),
           orb_A = Atan2 F P,
           orb_B = Atan2 G Q,
           orb_C = Atan2 H R,
           orb_a = Hypot F P,
           orb_b = Hypot G Q,
           orb_c = Hypot H R \<rparr>)"

definition trueAnomaly :: "real \<Rightarrow> real \<Rightarrow> real" where
  "trueAnomaly E e = 2 * arctan (sqrt ((1 + e) / (1 - e)) * tan (E * 0.5))"

definition radius :: "real \<Rightarrow> real \<Rightarrow> real \<Rightarrow> real" where
  "radius E e a = a * (1 - e * cos E)"

definition Position :: "Orbit \<Rightarrow> real \<Rightarrow> real \<times> real \<times> real \<times> real" where
  "Position o' jde =
     (let M = orb_n o' * (jde - TimeP (orb_k o'));
          E = kepler (Ecc (orb_k o')) M;
          r = radius E (Ecc (orb_k o')) (Axis (orb_k o'));
          \<nu> = trueAnomaly E (Ecc (orb_k o'));
          x = r * orb_a o' * sin (orb_A o' + ArgP (orb_k o') + \<nu>);
          y = r * orb_b o' * sin (orb_B o' + ArgP (orb_k o') + \<nu>);
          z = r * orb_c o' * sin (orb_C o' + ArgP (orb_k o') + \<nu>)
      in (x, y, z, r))"

section \<open>The series data loader (\<^verbatim>\<open>LoadPlanetPath\<close>, \<^verbatim>\<open>parse\<close>)\<close>

text \<open>
  A Go string is a sequence of bytes: a \<^typ>\<open>string\<close>.  \<^verbatim>\<open>s[i:j]\<close> on a string or a slice
  is \<open>slice\<close>, used under the bounds check of the source.
\<close>

definition slice :: "'a list \<Rightarrow> nat \<Rightarrow> nat \<Rightarrow> 'a list" where
  "slice xs i j = take (j - i) (drop i xs)"

definition Mercury :: int where
  "Mercury = 0"

definition Venus :: int where
  "Venus = 1"

definition Earth :: int where
  "Earth = 2"

definition Mars :: int where
  "Mars = 3"

definition Jupiter :: int where
  "Jupiter = 4"

definition Saturn :: int where
  "Saturn = 5"

definition Uranus :: int where
  "Uranus = 6"

definition Neptune :: int where
  "Neptune = 7"

definition nPlanets :: int where
  "nPlanets = 8"

definition ext :: "string list" where
  "ext = [''mer'', ''ven'', ''ear'', ''mar'', ''jup'', ''sat'', ''ura'', ''nep'']"

definition b7 :: "string list" where
  "b7 = [''MERCURY'', ''VENUS  '', ''EARTH  '', ''MARS   '',
         ''JUPITER'', ''SATURN '', ''URANUS '', ''NEPTUNE'']"

definition fileVersion :: char where
  "fileVersion = CHR ''2''"

text \<open>
  \<^verbatim>\<open>strings.TrimSpace\<close> of the Go library removes the white space of Unicode from both
  ends of a string in UTF-8.  \<open>isSpace\<close> is the ASCII white space (tab, line feed, vertical
  tab, form feed, carriage return, space); \<open>space2\<close> and \<open>space3\<close> are the encodings in two
  and three bytes of the other white-space characters: U+0085, U+00A0; U+1680, U+2000 to
  U+200A, U+2028, U+2029, U+202F, U+205F, U+3000.  Any other byte from 0x80 on, alone or
  in a sequence, is no white space and ends the trimming.  \<open>trim_front\<close> removes the white
  space at the front; the white space at the end is at the front of the reversed string,
  with its bytes in reverse order.
\<close>

definition isSpace :: "char \<Rightarrow> bool" where
  "isSpace ch = (let v = (of_char ch :: nat) in (9 \<le> v \<and> v \<le> 13) \<or> v = 32)"

definition space2 :: "char \<Rightarrow> char \<Rightarrow> bool" where
  "space2 c d =
     (let x = (of_char c :: nat); y = (of_char d :: nat)
      in x = 0xC2 \<and> (y = 0x85 \<or> y = 0xA0))"

definition space3 :: "char \<Rightarrow> char \<Rightarrow> char \<Rightarrow> bool" where
  "space3 c d e =
     (let x = (of_char c :: nat); y = (of_char d :: nat); z = (of_char e :: nat)
      in (x = 0xE1 \<and> y = 0x9A \<and> z = 0x80) \<or>
         (x = 0xE2 \<and> y = 0x80 \<and>
            ((0x80 \<le> z \<and> z \<le> 0x8A) \<or> z = 0xA8 \<or> z = 0xA9 \<or> z = 0xAF)) \<or>
         (x = 0xE2 \<and> y = 0x81 \<and> z = 0x9F) \<or>
         (x = 0xE3 \<and> y = 0x80 \<and> z = 0x80))"

fun trim_front ::
  "(char \<Rightarrow> char \<Rightarrow> bool) \<Rightarrow> (char \<Rightarrow> char \<Rightarrow> char \<Rightarrow> bool) \<Rightarrow> string \<Rightarrow> string" where
  "trim_front two three [] = []"
| "trim_front two three (c # s) =
     (if isSpace c then trim_front two three s
      else
        (case s of
           [] \<Rightarrow> c # s
         | d # s' \<Rightarrow>
             if two c d then trim_front two three s'
             else
               (case s' of
                  [] \<Rightarrow> c # s
                | e # s'' \<Rightarrow>
                    if three c d e then trim_front two three s'' else c # s)))"

definition TrimSpace :: "string \<Rightarrow> string" where
  "TrimSpace s =
     rev (trim_front (\<lambda>c d. space2 d c) (\<lambda>c d e. space3 e d c)
            (rev (trim_front space2 space3 s)))"

text \<open>
  \<^verbatim>\<open>strings.Split(s, "\n")\<close> and \<^verbatim>\<open>strconv.Atoi\<close> of the Go library.  \<open>Atoi\<close> reads an
  optional sign and one or more decimal digits, and fails outside the 64-bit integers.
\<close>

primrec split_from :: "string \<Rightarrow> string \<Rightarrow> string list" where
  "split_from cur [] = [cur]"
| "split_from cur (ch # s) =
     (if ch = CHR 0x0A then cur # split_from [] s else split_from (cur @ [ch]) s)"

definition Split :: "string \<Rightarrow> string list" where
  "Split s = split_from [] s"

definition isDigit :: "char \<Rightarrow> bool" where
  "isDigit ch = (let v = (of_char ch :: nat) in 48 \<le> v \<and> v \<le> 57)"

definition digits_value :: "string \<Rightarrow> int" where
  "digits_value ds = foldl (\<lambda>n ch. n * 10 + (int (of_char ch) - 48)) 0 ds"

definition Atoi :: "string \<Rightarrow> int option" where
  "Atoi s =
     (case s of
        [] \<Rightarrow> None
      | s0 # rest \<Rightarrow>
          (let ds = (if s0 = CHR ''-'' \<or> s0 = CHR ''+'' then rest else s) in
           if ds = [] then None
           else if list_all isDigit ds then
             (let n = (if s0 = CHR ''-'' then - digits_value ds else digits_value ds) in
              if - (2 ^ 63) \<le> n \<and> n < 2 ^ 63 then Some n else None)
           else None))"

text \<open>\<^verbatim>\<open>it := line[59] - '0'\<close> is a subtraction of bytes: it wraps around modulo 256.\<close>

definition byte_sub :: "char \<Rightarrow> char \<Rightarrow> nat" where
  "byte_sub x y = (of_char x + 256 - of_char y) mod 256"

text \<open>The assignment \<^verbatim>\<open>c[it] = ...\<close> on the array of six slices.\<close>

fun set_slot :: "coeff \<Rightarrow> nat \<Rightarrow> abc list \<Rightarrow> panic + coeff" where
  "set_slot (Coeff t0 t1 t2 t3 t4 t5) it v =
     (if it = 0 then Inr (Coeff v t1 t2 t3 t4 t5)
      else if it = 1 then Inr (Coeff t0 v t2 t3 t4 t5)
      else if it = 2 then Inr (Coeff t0 t1 v t3 t4 t5)
      else if it = 3 then Inr (Coeff t0 t1 t2 v t4 t5)
      else if it = 4 then Inr (Coeff t0 t1 t2 t3 v t5)
      else if it = 5 then Inr (Coeff t0 t1 t2 t3 t4 v)
      else Inl IndexOutOfRange)"

text \<open>
  The inner loop \<^verbatim>\<open>for _, line := range lines[n : n+in]\<close> of \<^verbatim>\<open>parse\<close>, over the data
  lines of one block.  \<open>cbuf\<close> is the filled part \<^verbatim>\<open>cbuf[:cx]\<close> of the scratch array of 2047
  terms; \<open>n\<close> is the index of the first data line.  \<^verbatim>\<open>strconv.ParseFloat\<close> is the parameter
  \<open>pf\<close>.  The result is a panic, the error of \<^verbatim>\<open>parseError\<close>, or the terms read.
\<close>

fun parse_terms ::
  "(string \<Rightarrow> real option) \<Rightarrow> string list \<Rightarrow> nat \<Rightarrow> nat \<Rightarrow> abc list \<Rightarrow> panic + (error + abc list)"
where
  "parse_terms pf [] n cx cbuf = Inr (Inr cbuf)"
| "parse_terms pf (line # rest) n cx cbuf =
     (if 2047 \<le> cx then Inl IndexOutOfRange
      else if length line < 97 then Inl SliceBoundsOutOfRange
      else
        (case pf (TrimSpace (slice line 79 97)) of
           None \<Rightarrow> Inr (Inl (FloatError (n + cx + 1) (TrimSpace (slice line 79 97))))
         | Some a \<Rightarrow>
             if length line < 111 then Inl SliceBoundsOutOfRange
             else
               (case pf (slice line 98 111) of
                  None \<Rightarrow> Inr (Inl (FloatError (n + cx + 1) (slice line 98 111)))
                | Some b \<Rightarrow>
                    if length line < 131 then Inl SliceBoundsOutOfRange
                    else
                      (case pf (TrimSpace (slice line 111 131)) of
                         None \<Rightarrow>
                           Inr (Inl (FloatError (n + cx + 1) (TrimSpace (slice line 111 131))))
                       | Some c \<Rightarrow> parse_terms pf rest n (cx + 1) (cbuf @ [Abc a b c])))))"

text \<open>
  \<^verbatim>\<open>parse\<close>: the loop \<^verbatim>\<open>for n < len(lines)\<close> over the loop variables \<open>c\<close> (the table the
  method mutates) and \<open>n\<close>.  The result is \<open>None\<close> when the loop does not end, a panic, or the
  table with the pair \<^verbatim>\<open>(n, err)\<close> the source returns.  The statement \<^verbatim>\<open>continue\<close> of the
  branch \<^verbatim>\<open>in == 0\<close> goes back to the loop test with \<open>c\<close> and \<open>n\<close> as they are.
\<close>

partial_function (option) parse ::
  "(string \<Rightarrow> real option) \<Rightarrow> char \<Rightarrow> int \<Rightarrow> string list \<Rightarrow> bool \<Rightarrow> coeff \<Rightarrow> nat
     \<Rightarrow> (panic + (coeff \<times> nat \<times> error option)) option"
where
  "parse pf ic ibody lines au c n =
     (if n < length lines then
        (let line = lines ! n in
         if length line < 132 then Some (Inr (c, n, None))
         else if line ! 41 \<noteq> ic then Some (Inr (c, n, None))
         else if line ! 17 \<noteq> fileVersion then
           Some (Inr (c, n, Some (VersionError (n + 1) fileVersion (line ! 17))))
         else
           (case index b7 ibody of
              Inl p \<Rightarrow> Some (Inl p)
            | Inr body \<Rightarrow>
                if slice line 22 29 \<noteq> body then
                  Some (Inr (c, n, Some (BodyError (n + 1) body (slice line 22 29))))
                else
                  (let it = byte_sub (line ! 59) (CHR ''0'') in
                   case Atoi (TrimSpace (slice line 60 67)) of
                     None \<Rightarrow>
                       Some (Inr (c, n, Some (AtoiError (n + 1) (TrimSpace (slice line 60 67)))))
                   | Some in' \<Rightarrow>
                       if in' = 0 then parse pf ic ibody lines au c n
                       else if in' > int (length lines) - int n then
                         Some (Inr (c, n, Some UnexpectedEOF))
                       else
                         (let n1 = n + 1 in
                          if in' < 0 \<or> int (length lines) < int n1 + in' then
                            Some (Inl SliceBoundsOutOfRange)
                          else
                            (case parse_terms pf (slice lines n1 (n1 + nat in')) n1 0 [] of
                               Inl p \<Rightarrow> Some (Inl p)
                             | Inr (Inl err) \<Rightarrow> Some (Inr (c, n1, Some err))
                             | Inr (Inr terms) \<Rightarrow>
                                 (case set_slot c it terms of
                                    Inl p \<Rightarrow> Some (Inl p)
                                  | Inr c' \<Rightarrow>
                                      parse pf ic ibody lines au c' (n1 + nat in')))))))
      else Some (Inr (c, n, None)))"

text \<open>
  The file system that \<^verbatim>\<open>ioutil.ReadFile\<close> reads: every path has its contents or the error
  of reading it, and \<open>reads\<close> records the paths read so far.
\<close>

record world =
  files :: "string \<Rightarrow> error + string"
  reads :: "string list"

definition ReadFile :: "world \<Rightarrow> string \<Rightarrow> (error + string) \<times> world" where
  "ReadFile w path = (files w path, w\<lparr>reads := reads w @ [path]\<rparr>)"

definition zero_coeff :: coeff where
  "zero_coeff = Coeff [] [] [] [] [] []"

text \<open>
  \<^verbatim>\<open>LoadPlanetPath\<close>.  The result is \<open>None\<close> when the call does not return, a panic, or the
  pair \<^verbatim>\<open>(*V87Planet, error)\<close> with the file system after the call.
\<close>

definition LoadPlanetPath ::
  "(string \<Rightarrow> real option) \<Rightarrow> int \<Rightarrow> string \<Rightarrow> world
     \<Rightarrow> (panic + ((V87Planet option \<times> error option) \<times> world)) option"
where
  "LoadPlanetPath pf ibody path w =
     (if ibody < 0 \<or> ibody \<ge> nPlanets then Some (Inr ((None, Some InvalidPlanet), w))
      else
        (case ReadFile w (path @ ''/VSOP87B.'' @ ext ! nat ibody) of
           (Inl err, w1) \<Rightarrow> Some (Inr ((None, Some err), w1))
         | (Inr data, w1) \<Rightarrow>
             (let lines = Split data in
              case parse pf (CHR ''1'') ibody lines False zero_coeff 0 of
                None \<Rightarrow> None
              | Some (Inl p) \<Rightarrow> Some (Inl p)
              | Some (Inr (vl, n, Some err)) \<Rightarrow> Some (Inr ((None, Some err), w1))
              | Some (Inr (vl, n, None)) \<Rightarrow>
                  (case parse pf (CHR ''2'') ibody lines False zero_coeff n of
                     None \<Rightarrow> None
                   | Some (Inl p) \<Rightarrow> Some (Inl p)
                   | Some (Inr (vb, n, Some err)) \<Rightarrow> Some (Inr ((None, Some err), w1))
                   | Some (Inr (vb, n, None)) \<Rightarrow>
                       (case parse pf (CHR ''3'') ibody lines True zero_coeff n of
                          None \<Rightarrow> None
                        | Some (Inl p) \<Rightarrow> Some (Inl p)
                        | Some (Inr (vr, n, Some err)) \<Rightarrow> Some (Inr ((None, Some err), w1))
                        | Some (Inr (vr, n, None)) \<Rightarrow>
                            Some (Inr ((Some (V87Planet vl vb vr), None), w1)))))))"

section \<open>Inputs of the examples\<close>

text \<open>
  A header line of a VSOP87B file of the Earth, 132 columns wide: the version at column
  17, the body at columns 22 to 28, the series index \<open>ic\<close> at column 41, the power \<open>it\<close> at
  column 59 and the term count at columns 60 to 66.
\<close>

definition header :: "char \<Rightarrow> char \<Rightarrow> string \<Rightarrow> string" where
  "header ic it count =
     '' VSOP87 VERSION B2    EARTH     VARIABLE '' @ [ic] @ '' (LBR)       *T**'' @ [it] @ count @
     '' TERMS    HELIOCENTRIC DYNAMICAL ECLIPTIC AND EQUINOX J2000      ''"

text \<open>A data line of 132 blanks, for a \<open>pf\<close> that reads every field.\<close>

definition data_line :: string where
  "data_line = replicate 132 (CHR '' '')"

text \<open>A file system with one readable file, nothing read yet.\<close>

definition one_file :: "string \<Rightarrow> string \<Rightarrow> world" where
  "one_file name data =
     \<lparr>files = (\<lambda>p. if p = name then Inr data else Inl (ReadFileError p)), reads = []\<rparr>"

text \<open>A table with three populated powers, as the radius has; a table with one term.\<close>

definition radius_like :: coeff where
  "radius_like = Coeff [Abc 1 0 0] [Abc 2 0 0] [Abc 3 0 0] [] [] []"

definition eights :: coeff where
  "eights = Coeff [Abc 8 0 0] [] [] [] [] []"

text \<open>The circular orbit of radius 1 in the ecliptic.\<close>

definition unit_circle :: Elements where
  "unit_circle = \<lparr>Axis = 1, Ecc = 0, Inc = 0, ArgP = 0, Node = 0, TimeP = 0\<rparr>"

section \<open>Properties of the positive modulo\<close>

lemma math_Mod_nonneg:
  assumes "0 < y" "0 \<le> x"
  shows "0 \<le> math_Mod x y \<and> math_Mod x y < y"
proof -
  define q where "q = x / y"
  have x: "x = y * q" using assms by (simp add: q_def)
  have q0: "0 \<le> q" using assms by (simp add: q_def)
  have r: "math_Mod x y = y * frac q"
    using q0 by (simp add: math_Mod_def trunc_def frac_def x right_diff_distrib flip: q_def)
  have "0 \<le> y * frac q" using assms by simp
  moreover have "y * frac q < y * 1"
    using assms(1) frac_lt_1 [of q] by (intro mult_strict_left_mono) auto
  ultimately show ?thesis by (simp add: r)
qed

lemma math_Mod_neg:
  assumes "0 < y" "x < 0"
  shows "- y < math_Mod x y \<and> math_Mod x y \<le> 0"
proof -
  define q where "q = x / y"
  have x: "x = y * q" using assms by (simp add: q_def)
  have "q < 0" unfolding q_def using assms by (simp add: divide_neg_pos)
  then have q0: "\<not> 0 \<le> q" by simp
  have r: "math_Mod x y = y * (q - of_int \<lceil>q\<rceil>)"
    using q0 by (simp add: math_Mod_def trunc_def x right_diff_distrib flip: q_def)
  have lo: "- 1 < q - of_int \<lceil>q\<rceil>" and hi: "q - of_int \<lceil>q\<rceil> \<le> 0"
    using ceiling_correct [of q] by linarith+
  have "y * (- 1) < y * (q - of_int \<lceil>q\<rceil>)"
    using assms(1) lo by (intro mult_strict_left_mono) auto
  moreover have "y * (q - of_int \<lceil>q\<rceil>) \<le> 0"
    using assms(1) hi by (simp add: mult_le_0_iff)
  ultimately show ?thesis by (simp add: r)
qed

lemma PMod_range:
  assumes "0 < y"
  shows "0 \<le> PMod x y \<and> PMod x y < y"
proof (cases "0 \<le> x")
  case True
  with math_Mod_nonneg [OF assms, of x] show ?thesis by (simp add: PMod_def Let_def)
next
  case False
  with math_Mod_neg [OF assms, of x] show ?thesis by (auto simp add: PMod_def Let_def)
qed

lemma PMod_small:
  assumes "0 \<le> x" "x < y"
  shows "PMod x y = x"
proof -
  have "0 \<le> x / y" "x / y < 1" using assms by simp_all
  then have "\<lfloor>x / y\<rfloor> = 0" by (simp add: floor_eq_iff)
  with assms show ?thesis by (simp add: PMod_def math_Mod_def trunc_def Let_def)
qed

lemma PMod_neg_small:
  assumes "- y < x" "x < 0"
  shows "PMod x y = x + y"
proof -
  have y: "0 < y" using assms by simp
  have "- 1 < x / y" using assms y by (simp add: pos_less_divide_eq)
  moreover have "x / y < 0" using assms y by (simp add: divide_neg_pos)
  ultimately have "\<lceil>x / y\<rceil> = 0" by (simp add: ceiling_eq_iff)
  with assms \<open>x / y < 0\<close> show ?thesis
    by (simp add: PMod_def math_Mod_def trunc_def Let_def)
qed

text \<open>
  For a positive modulus \<open>PMod\<close> is the remainder of the floored quotient; at \<open>2\<pi>\<close> it is
  the reduction modulo \<open>2\<pi>\<close>, which differs from its argument by a multiple of \<open>2\<pi>\<close>.
\<close>

lemma PMod_floor:
  assumes y: "0 < y"
  shows "PMod x y = x - y * of_int \<lfloor>x / y\<rfloor>"
proof (cases "0 \<le> x")
  case True
  then have "0 \<le> x / y" using y by simp
  with math_Mod_nonneg [OF y True] show ?thesis
    by (simp add: PMod_def Let_def math_Mod_def trunc_def)
next
  case False
  then have q: "\<not> 0 \<le> x / y" using y by (simp add: divide_less_0_iff not_le)
  have r: "math_Mod x y = x - y * of_int \<lceil>x / y\<rceil>"
    using q by (simp add: math_Mod_def trunc_def)
  have x: "x = y * (x / y)" using y by simp
  show ?thesis
  proof (cases "x / y = of_int \<lfloor>x / y\<rfloor>")
    case True
    then have c: "\<lceil>x / y\<rceil> = \<lfloor>x / y\<rfloor>" by (simp add: ceiling_altdef)
    have "x - y * of_int \<lfloor>x / y\<rfloor> = y * (x / y) - y * of_int \<lfloor>x / y\<rfloor>"
      using x by simp
    also have "\<dots> = 0" using True by simp
    finally have "x - y * of_int \<lfloor>x / y\<rfloor> = 0" .
    then show ?thesis by (simp add: PMod_def Let_def r c)
  next
    case False
    then have c: "\<lceil>x / y\<rceil> = \<lfloor>x / y\<rfloor> + 1" by (simp add: ceiling_altdef)
    have "x / y < of_int \<lfloor>x / y\<rfloor> + 1" by linarith
    then have "x / y < of_int \<lceil>x / y\<rceil>" by (simp add: c)
    then have "y * (x / y) < y * of_int \<lceil>x / y\<rceil>"
      using y by (intro mult_strict_left_mono) auto
    then have "x - y * of_int \<lceil>x / y\<rceil> < 0" using x by simp
    then show ?thesis by (simp add: PMod_def Let_def r c algebra_simps)
  qed
qed

lemma PMod_2pi: "PMod x (2 * pi) = mod_2pi x"
  unfolding mod_2pi_def by (rule PMod_floor) simp

lemma mod_2pi_range: "0 \<le> mod_2pi x \<and> mod_2pi x < 2 * pi"
  unfolding PMod_2pi [symmetric] by (rule PMod_range) simp

lemma mod_2pi_congruent: "\<exists>k::int. mod_2pi x = x + 2 * pi * of_int k"
proof
  show "mod_2pi x = x + 2 * pi * of_int (- \<lfloor>x / (2 * pi)\<rfloor>)"
    by (simp add: mod_2pi_def)
qed

section \<open>Properties of the Kepler solver\<close>

lemma kepler2b_f_fixed: "kepler2b_f 0 M M = M"
  by (simp add: kepler2b_f_def)

lemma kepler2b_circular: "kepler2b 0 M 15 = (M, None)"
  unfolding kepler2b_def iterateDecimalPlaces_def Let_def
  by (subst iterate_loop.simps) (simp add: kepler2b_f_fixed)

text \<open>When the iteration reports an error, the value next to it is 0.\<close>

lemma iterate_loop_exhausted:
  "snd (iterate_loop better d m i start) \<noteq> None \<Longrightarrow>
   iterate_loop better d m i start = (0, Some MaximumIterations)"
proof (induction better d m i start rule: iterate_loop.induct)
  case (1 better d m i start)
  show ?case
  proof (cases "i < m")
    case False
    then show ?thesis by (subst iterate_loop.simps) simp
  next
    case True
    show ?thesis
    proof (cases "\<bar>better start - start\<bar> < d")
      case close: True
      with True have "iterate_loop better d m i start = (better start, None)"
        by (subst iterate_loop.simps) simp
      with 1(2) show ?thesis by simp
    next
      case far: False
      with True have
        "iterate_loop better d m i start = iterate_loop better d m (i + 1) (better start)"
        by (subst iterate_loop.simps) simp
      with 1(1) [OF True refl far] 1(2) show ?thesis by simp
    qed
  qed
qed

text \<open>The bisection keeps its estimate at or above twice the step: it ends above 0.\<close>

lemma kepler3_loop_pos:
  "0 < d \<Longrightarrow> 2 * d \<le> E0 \<Longrightarrow> 0 < fst (kepler3_loop e M i E0 d)"
proof (induction e M i E0 d rule: kepler3_loop.induct)
  case (1 e M i E0 d)
  show ?case
  proof (cases "i < 53")
    case False
    with 1 show ?thesis by (subst kepler3_loop.simps) simp
  next
    case True
    show ?thesis
    proof (cases "M - (E0 - e * sin E0) < 0")
      case down: True
      with True 1 show ?thesis by (subst kepler3_loop.simps) (simp add: Let_def)
    next
      case up: False
      with True 1 show ?thesis by (subst kepler3_loop.simps) (simp add: Let_def)
    qed
  qed
qed

lemma kepler3_loop_funpow:
  "i \<le> 53 \<Longrightarrow> kepler3_loop e M i E0 d = (halving_step e M ^^ nat (53 - i)) (E0, d)"
proof (induction e M i E0 d rule: kepler3_loop.induct)
  case (1 e M i E0 d)
  show ?case
  proof (cases "i < 53")
    case False
    with 1(3) have "i = 53" by simp
    then show ?thesis by (subst kepler3_loop.simps) simp
  next
    case True
    then have n: "nat (53 - i) = Suc (nat (53 - (i + 1)))" by simp
    have le: "i + 1 \<le> 53" using True by simp
    show ?thesis
    proof (cases "M - (E0 - e * sin E0) < 0")
      case down: True
      have "kepler3_loop e M i E0 d = kepler3_loop e M (i + 1) (E0 - d) (d * 0.5)"
        using True down by (subst kepler3_loop.simps) simp
      also have "\<dots> = (halving_step e M ^^ nat (53 - (i + 1))) (E0 - d, d * 0.5)"
        using 1(1) [OF True refl down le] .
      also have "(E0 - d, d * 0.5) = halving_step e M (E0, d)"
        using down by (simp add: halving_step_def)
      finally show ?thesis unfolding n by (simp add: funpow_swap1)
    next
      case up: False
      have "kepler3_loop e M i E0 d = kepler3_loop e M (i + 1) (E0 + d) (d * 0.5)"
        using True up by (subst kepler3_loop.simps) simp
      also have "\<dots> = (halving_step e M ^^ nat (53 - (i + 1))) (E0 + d, d * 0.5)"
        using 1(2) [OF True refl up le] .
      also have "(E0 + d, d * 0.5) = halving_step e M (E0, d)"
        using up by (simp add: halving_step_def)
      finally show ?thesis unfolding n by (simp add: funpow_swap1)
    qed
  qed
qed

lemma reduce_anomaly_range: "0 \<le> snd (reduce_anomaly M) \<and> snd (reduce_anomaly M) \<le> pi"
  using mod_2pi_range [of M] by (simp add: reduce_anomaly_def Let_def)

text \<open>The reduced anomaly is \<open>M\<close>, or \<open>- M\<close> under a flip, up to a multiple of \<open>2\<pi>\<close>.\<close>

lemma reduce_anomaly_congruent:
  "\<exists>k::int. snd (reduce_anomaly M) =
     (if fst (reduce_anomaly M) then - M else M) + 2 * pi * of_int k"
proof -
  from mod_2pi_congruent [of M] obtain k :: int where k: "mod_2pi M = M + 2 * pi * of_int k" ..
  show ?thesis
  proof (cases "pi < mod_2pi M")
    case True
    then have f: "fst (reduce_anomaly M)"
      and s: "snd (reduce_anomaly M) = 2 * pi - mod_2pi M"
      by (simp_all add: reduce_anomaly_def Let_def)
    have "snd (reduce_anomaly M) = - M + 2 * pi * of_int (1 - k)"
      unfolding s k by (simp add: algebra_simps)
    then show ?thesis using f by - (rule exI [of _ "1 - k"], simp)
  next
    case False
    then have f: "\<not> fst (reduce_anomaly M)"
      and s: "snd (reduce_anomaly M) = mod_2pi M"
      by (simp_all add: reduce_anomaly_def Let_def)
    have "snd (reduce_anomaly M) = M + 2 * pi * of_int k"
      unfolding s k by simp
    then show ?thesis using f by - (rule exI [of _ k], simp)
  qed
qed

lemma kepler3_flipped_neg:
  assumes "pi < PMod M (2 * pi)"
  shows "kepler3 e M < 0"
proof -
  have "0 < fst (kepler3_loop e (2 * pi - PMod M (2 * pi)) 0 (pi * 0.5) (pi * 0.25))"
    by (rule kepler3_loop_pos) simp_all
  with assms show ?thesis by (simp add: kepler3_def Let_def case_prod_beta)
qed

lemma kepler3_unflipped_pos:
  assumes "\<not> pi < PMod M (2 * pi)"
  shows "0 < kepler3 e M"
proof -
  have "0 < fst (kepler3_loop e (PMod M (2 * pi)) 0 (pi * 0.5) (pi * 0.25))"
    by (rule kepler3_loop_pos) simp_all
  with assms show ?thesis by (simp add: kepler3_def Let_def case_prod_beta)
qed

lemma pi_ge_three: "3 \<le> pi"
proof -
  have "sin (pi / 6) \<le> pi / 6" by (rule sin_x_le_x) simp
  then show ?thesis by (simp add: sin_30)
qed

lemma PMod_4: "PMod 4 (2 * pi) = 4"
  using pi_ge_three by (intro PMod_small) simp_all

lemma PMod_0: "PMod 0 (2 * pi) = 0"
  by (intro PMod_small) simp_all

text \<open>
  For eccentricity 0 the bisection ends within \<open>\<pi>/2\<^sup>5\<^sup>4\<close> of the reduced mean anomaly, so
  that \<^verbatim>\<open>kepler\<close> as written is that close to \<open>M\<close> on \<open>(-\<pi>, \<pi>]\<close>.
\<close>

lemma kepler3_loop_circular:
  assumes "e = 0" "i \<le> 53" "0 < d" "\<bar>E0 - M\<bar> \<le> 2 * d"
  shows "\<bar>fst (kepler3_loop e M i E0 d) - M\<bar> \<le> 2 * d * (1 / 2) ^ nat (53 - i)"
  using assms
proof (induction e M i E0 d rule: kepler3_loop.induct)
  case (1 e M i E0 d)
  note e0 = \<open>e = 0\<close> and i53 = \<open>i \<le> 53\<close> and dpos = \<open>0 < d\<close> and near = \<open>\<bar>E0 - M\<bar> \<le> 2 * d\<close>
  show ?case
  proof (cases "i < 53")
    case False
    with i53 have "i = 53" by simp
    with near show ?thesis by (subst kepler3_loop.simps) simp
  next
    case True
    then have n: "nat (53 - i) = Suc (nat (53 - (i + 1)))" by simp
    have le: "i + 1 \<le> 53" using True by simp
    have d': "0 < d * 0.5" using dpos by simp
    show ?thesis
    proof (cases "M - (E0 - e * sin E0) < 0")
      case down: True
      have eq: "kepler3_loop e M i E0 d = kepler3_loop e M (i + 1) (E0 - d) (d * 0.5)"
        using True down by (subst kepler3_loop.simps) simp
      have "\<bar>(E0 - d) - M\<bar> \<le> 2 * (d * 0.5)"
        using down near e0 by simp
      from "1.IH"(1) [OF True refl down e0 le d' this] show ?thesis
        unfolding eq n by simp
    next
      case up: False
      have eq: "kepler3_loop e M i E0 d = kepler3_loop e M (i + 1) (E0 + d) (d * 0.5)"
        using True up by (subst kepler3_loop.simps) simp
      have "\<bar>(E0 + d) - M\<bar> \<le> 2 * (d * 0.5)"
        using up near e0 by simp
      from "1.IH"(2) [OF True refl up e0 le d' this] show ?thesis
        unfolding eq n by simp
    qed
  qed
qed

lemma kepler3_circular_reduced:
  assumes "0 \<le> m" "m \<le> pi"
  shows "\<bar>fst (kepler3_loop 0 m 0 (pi * 0.5) (pi * 0.25)) - m\<bar> \<le> pi / 2 ^ 54"
proof -
  have "\<bar>pi * 0.5 - m\<bar> \<le> 2 * (pi * 0.25)"
    using assms by (auto simp: abs_le_iff field_simps)
  from kepler3_loop_circular [OF refl _ _ this, of 0]
  have "\<bar>fst (kepler3_loop 0 m 0 (pi * 0.5) (pi * 0.25)) - m\<bar> \<le> 2 * (pi * 0.25) * (1 / 2) ^ 53"
    by simp
  also have "2 * (pi * 0.25) * (1 / 2) ^ 53 = pi / 2 ^ 54"
    by (simp add: power_one_over)
  finally show ?thesis .
qed

lemma kepler_circular_principal_range:
  assumes "- pi < M" "M \<le> pi"
  shows "\<bar>kepler 0 M - M\<bar> \<le> pi / 2 ^ 54"
proof -
  have eq: "kepler 0 M = kepler3 0 M"
    by (simp add: kepler_def kepler2b_circular)
  show ?thesis
  proof (cases "0 \<le> M")
    case True
    then have "PMod M (2 * pi) = M" using assms by (intro PMod_small) simp_all
    then have "kepler3 0 M = fst (kepler3_loop 0 M 0 (pi * 0.5) (pi * 0.25))"
      using assms by (simp add: kepler3_def Let_def case_prod_beta)
    with kepler3_circular_reduced [OF True assms(2)] show ?thesis
      by (simp only: eq)
  next
    case False
    then have "PMod M (2 * pi) = M + 2 * pi" using assms by (intro PMod_neg_small) simp_all
    then have k: "kepler3 0 M = - fst (kepler3_loop 0 (- M) 0 (pi * 0.5) (pi * 0.25))"
      using assms False by (simp add: kepler3_def Let_def case_prod_beta)
    have "\<bar>fst (kepler3_loop 0 (- M) 0 (pi * 0.5) (pi * 0.25)) - (- M)\<bar> \<le> pi / 2 ^ 54"
      using False assms by (intro kepler3_circular_reduced) simp_all
    moreover have "\<bar>- x - M\<bar> = \<bar>x - (- M)\<bar>" for x :: real by simp
    ultimately show ?thesis by (simp only: eq k)
  qed
qed

text \<open>
  C1.  The solver is claimed to return the converged eccentric anomaly of the damped
  iteration, and the result of the bisection when the iteration runs out of its budget.
  The test of \<^verbatim>\<open>kepler\<close> is the other way round: where the iteration converges
  (\<^verbatim>\<open>err == nil\<close>) the solver returns the result of the bisection, and where it reports an
  error the solver returns the value 0 that comes with the error.  At \<open>e = 0\<close>, \<open>M = 4\<close>
  the iteration converges to 4, and the solver returns a negative number.
\<close>

theorem kepler_returns_other_strategy:
  "kepler e M = (if snd (kepler2b e M 15) = None then kepler3 e M else 0) \<and>
   kepler2b 0 4 15 = (4, None) \<and> kepler 0 4 = kepler3 0 4 \<and> kepler 0 4 \<noteq> 4"
proof -
  have general: "kepler e M = (if snd (kepler2b e M 15) = None then kepler3 e M else 0)"
  proof (cases "snd (kepler2b e M 15) = None")
    case True
    then show ?thesis by (simp add: kepler_def case_prod_beta)
  next
    case False
    then have "kepler2b e M 15 = (0, Some MaximumIterations)"
      unfolding kepler2b_def iterateDecimalPlaces_def Let_def by (rule iterate_loop_exhausted)
    then show ?thesis by (simp add: kepler_def)
  qed
  have at4: "kepler 0 4 = kepler3 0 4"
    by (simp add: kepler_def kepler2b_circular)
  have "pi < PMod 4 (2 * pi)" using pi_less_4 by (simp add: PMod_4)
  then have "kepler3 0 4 < 0" by (rule kepler3_flipped_neg)
  with general at4 show ?thesis by (simp add: kepler2b_circular)
qed

text \<open>
  C4.  For eccentricity 0 the solver is claimed to return the mean anomaly itself, within
  \<open>10\<^sup>-\<^sup>1\<^sup>2\<close>, and 0 for the mean anomaly 0.  The iteration converges at once to \<open>M\<close>, but
  \<^verbatim>\<open>kepler\<close> then returns the result of the bisection, which works on the mean anomaly
  reduced modulo \<open>2\<pi>\<close> and is never 0: at \<open>M = 4\<close> the result is negative, more than 4 away
  from \<open>M\<close>, and at \<open>M = 0\<close> it is positive.
\<close>

theorem kepler_circular_orbit_off:
  "kepler2b 0 M 15 = (M, None) \<and> kepler 0 M = kepler3 0 M \<and>
   1 / 10 ^ 12 < \<bar>kepler 0 4 - 4\<bar> \<and> 0 < kepler 0 0"
proof -
  have eq: "kepler 0 M = kepler3 0 M" for M
    by (simp add: kepler_def kepler2b_circular)
  have "pi < PMod 4 (2 * pi)" using pi_less_4 by (simp add: PMod_4)
  then have neg: "kepler3 0 4 < 0" by (rule kepler3_flipped_neg)
  have "\<not> pi < PMod 0 (2 * pi)" by (simp add: PMod_0)
  then have pos: "0 < kepler3 0 0" by (rule kepler3_unflipped_pos)
  have "(1::real) / 10 ^ 12 < 4" by simp
  with neg have "1 / 10 ^ 12 < \<bar>kepler3 0 4 - 4\<bar>" by linarith
  with pos show ?thesis by (simp add: eq kepler2b_circular)
qed

text \<open>
  C7.  The bisection of the source is the bisection of the specification, for every \<open>e\<close>
  and \<open>M\<close>.  The mean anomaly is reduced into \<open>[0, \<pi>]\<close>, and the reduced anomaly is \<open>M\<close>
  itself up to a multiple of \<open>2\<pi>\<close> when no flip is recorded and \<open>- M\<close> up to a multiple of
  \<open>2\<pi>\<close> when one is (the symmetry \<open>E(2\<pi> - M) = - E(M)\<close>); exactly 53 halving steps run
  from \<open>(\<pi>/2, \<pi>/4)\<close>; and the flip is applied to the result.  The reduction of the
  specification is stated with the floor of the quotient, not with \<open>PMod\<close>.  \<open>kepler3\<close> is a
  total function: its loop is defined with a termination proof.
\<close>

theorem kepler3_is_bisection:
  "kepler3 e M = bisection_spec e M \<and>
   0 \<le> snd (reduce_anomaly M) \<and> snd (reduce_anomaly M) \<le> pi \<and>
   (\<exists>k::int. snd (reduce_anomaly M) =
      (if fst (reduce_anomaly M) then - M else M) + 2 * pi * of_int k)"
proof -
  have "kepler3 e M = bisection_spec e M"
    by (simp add: kepler3_def bisection_spec_def reduce_anomaly_def Let_def PMod_2pi
        kepler3_loop_funpow split: prod.splits)
  then show ?thesis
    using reduce_anomaly_range [of M] reduce_anomaly_congruent [of M] by simp
qed

section \<open>Properties of the Horner evaluation\<close>

lemma Horner_loop_value:
  "0 \<le> i \<Longrightarrow> i \<le> int (length c) \<Longrightarrow>
   Horner_loop x c i y = Inr (y * x ^ nat i + (\<Sum>j<nat i. c ! j * x ^ j))"
proof (induction x c i y rule: Horner_loop.induct)
  case (1 x c i y)
  show ?case
  proof (cases "i > 0")
    case False
    with 1(2) have "i = 0" by simp
    then show ?thesis by (subst Horner_loop.simps) simp
  next
    case True
    define k where "k = nat (i - 1)"
    have i: "nat i = Suc k" using True by (simp add: k_def)
    have idx: "index c (i - 1) = Inr (c ! k)"
      using True 1(3) by (simp add: index_def k_def)
    have "Horner_loop x c i y = Horner_loop x c (i - 1) (y * x + c ! k)"
      using True idx by (subst Horner_loop.simps) simp
    also have "\<dots> = Inr ((y * x + c ! k) * x ^ k + (\<Sum>j<k. c ! j * x ^ j))"
      using 1(1) [OF True idx] True 1(3) by (simp add: k_def)
    finally show ?thesis by (simp add: i algebra_simps)
  qed
qed

lemma Horner_nonempty:
  assumes "c \<noteq> []"
  shows "Horner x c = Inr (\<Sum>i<length c. c ! i * x ^ i)"
proof -
  define k where "k = length c - 1"
  from assms have len: "length c = Suc k" by (simp add: k_def)
  have idx: "index c (int (length c) - 1) = Inr (c ! k)"
    by (simp add: index_def len)
  have "Horner x c = Horner_loop x c (int k) (c ! k)"
    using idx by (simp add: Horner_def Let_def len)
  also have "\<dots> = Inr (c ! k * x ^ k + (\<Sum>j<k. c ! j * x ^ j))"
    using Horner_loop_value [of "int k" c x "c ! k"] by (simp add: len)
  finally show ?thesis by (simp add: len)
qed

text \<open>
  C8.  On the empty coefficient list \<^verbatim>\<open>Horner\<close> panics (the index \<^verbatim>\<open>c[len(c)-1]\<close> is out
  of range) and returns no number; on every other list it returns the value at \<open>x\<close> of the
  polynomial whose coefficient of \<open>x\<^sup>i\<close> is \<open>c[i]\<close>, so that \<open>c[0]\<close> is the constant term.
\<close>

theorem Horner_panics_or_evaluates:
  "Horner x [] = Inl IndexOutOfRange \<and>
   (c \<noteq> [] \<longrightarrow> Horner x c = Inr (\<Sum>i<length c. c ! i * x ^ i))"
proof -
  have "Horner x [] = Inl IndexOutOfRange"
    by (simp add: Horner_def index_def)
  then show ?thesis using Horner_nonempty [of c x] by simp
qed

theorem Horner_panics_or_evaluates_witness:
  "[1, 2, 3 :: real] \<noteq> [] \<and> Horner 2 [] = Inl IndexOutOfRange \<and> Horner 2 [1, 2, 3] = Inr 17"
  using Horner_panics_or_evaluates [of 2 "[1, 2, 3]"]
  by (simp add: lessThan_Suc eval_nat_numeral)

section \<open>Properties of the series evaluator\<close>

lemma sum_terms_sum_list: "sum_terms \<tau> terms = (\<Sum>t\<leftarrow>terms. term_value \<tau> t)"
  unfolding sum_terms_def by (induction terms) simp_all

lemma length_slots: "length (slots series) = 6"
  by (cases series) simp

lemma length_cf_of: "length (cf_of \<tau> series) = 6"
  by (simp add: cf_of_def length_slots)

lemma horner_args_cf: "horner_args \<tau> series = cf_of \<tau> series"
  by (simp add: horner_args_def len_coeff_def length_slots length_cf_of)

lemma length_horner_args: "length (horner_args \<tau> series) = 6"
  by (simp add: horner_args_cf length_cf_of)

lemma cf_of_nth: "i < 6 \<Longrightarrow> cf_of \<tau> series ! i = (\<Sum>t\<leftarrow>slots series ! i. term_value \<tau> t)"
  by (simp add: cf_of_def length_slots sum_terms_sum_list)

lemma cf_poly_series_value: "(\<Sum>i<6. cf_of \<tau> series ! i * \<tau> ^ i) = series_value \<tau> series"
  unfolding series_value_def by (intro sum.cong refl) (simp add: cf_of_nth)

lemma sum_series_value: "sum_series \<tau> series = Inr (series_value \<tau> series)"
proof -
  have ne: "horner_args \<tau> series \<noteq> []"
    using length_horner_args [of \<tau> series] by auto
  have "sum_series \<tau> series = Inr (\<Sum>i<6. cf_of \<tau> series ! i * \<tau> ^ i)"
    unfolding sum_series_def Horner_nonempty [OF ne]
    by (simp add: horner_args_cf length_cf_of)
  then show ?thesis by (simp only: cf_poly_series_value)
qed

text \<open>Horner on a prefix of the coefficients that leaves out empty slots only.\<close>

lemma Horner_prefix:
  assumes k: "0 < k" "k \<le> 6"
    and empty: "\<forall>i. k \<le> i \<and> i < 6 \<longrightarrow> slots series ! i = []"
  shows "Horner \<tau> (take k (cf_of \<tau> series)) = Inr (series_value \<tau> series)"
proof -
  have len: "length (take k (cf_of \<tau> series)) = k"
    using k by (simp add: length_cf_of)
  then have ne: "take k (cf_of \<tau> series) \<noteq> []" using k by auto
  have "Horner \<tau> (take k (cf_of \<tau> series)) = Inr (\<Sum>i<k. cf_of \<tau> series ! i * \<tau> ^ i)"
    unfolding Horner_nonempty [OF ne] len by simp
  also have "(\<Sum>i<k. cf_of \<tau> series ! i * \<tau> ^ i) = (\<Sum>i<6. cf_of \<tau> series ! i * \<tau> ^ i)"
  proof (rule sum.mono_neutral_left)
    show "\<forall>i\<in>{..<6} - {..<k}. cf_of \<tau> series ! i * \<tau> ^ i = 0"
      using empty by (auto simp: cf_of_nth)
  qed (use k in auto)
  finally show ?thesis by (simp only: cf_poly_series_value)
qed

text \<open>
  C5, as stated: the number of coefficients handed to \<^verbatim>\<open>Horner\<close> is the number of
  populated power slots of the quantity.  It fails on a table with three populated slots:
  the evaluator hands over six coefficients.
\<close>

theorem coefficient_count_counterexample:
  "populated radius_like = 3 \<and> length (horner_args 0 radius_like) = 6 \<and>
   length (horner_args 0 radius_like) \<noteq> populated radius_like"
  by (simp add: populated_def radius_like_def horner_args_def cf_of_def len_coeff_def)

text \<open>
  C5, amended.  The per-power sums are combined by Horner's method in \<open>\<tau>\<close> over all six
  power slots of the table, a fixed count: \<^verbatim>\<open>len(series)\<close> is the length of the array.  The
  result is the value of the polynomial whose coefficients are the six sums; an empty slot
  contributes the coefficient 0, so the result is the one Horner's method gives on the
  first \<open>k\<close> coefficients alone, whenever every slot from \<open>k\<close> on is empty and \<open>k \<ge> 1\<close>.
\<close>

theorem sum_series_fixed_count:
  "length (horner_args \<tau> series) = 6 \<and>
   sum_series \<tau> series = Horner \<tau> (horner_args \<tau> series) \<and>
   sum_series \<tau> series = Inr (series_value \<tau> series) \<and>
   (0 < k \<and> k \<le> 6 \<and> (\<forall>i. k \<le> i \<and> i < 6 \<longrightarrow> slots series ! i = []) \<longrightarrow>
      Horner \<tau> (take k (cf_of \<tau> series)) = sum_series \<tau> series)"
proof -
  have "sum_series \<tau> series = Horner \<tau> (horner_args \<tau> series)"
    by (simp only: sum_series_def)
  moreover have "Horner \<tau> (take k (cf_of \<tau> series)) = sum_series \<tau> series"
    if "0 < k" "k \<le> 6" "\<forall>i. k \<le> i \<and> i < 6 \<longrightarrow> slots series ! i = []"
    using Horner_prefix [OF that] by (simp only: sum_series_value)
  ultimately show ?thesis
    using length_horner_args [of \<tau> series] sum_series_value [of \<tau> series] by blast
qed

theorem sum_series_fixed_count_witness:
  "(0::nat) < 3 \<and> (3::nat) \<le> 6 \<and> length (horner_args 2 radius_like) = 6 \<and>
   sum_series 2 radius_like = Inr 17 \<and>
   Horner 2 (take 3 (cf_of 2 radius_like)) = Inr 17"
proof -
  have e: "\<forall>i. 3 \<le> i \<and> i < 6 \<longrightarrow> slots radius_like ! i = []"
  proof (intro allI impI)
    fix i :: nat
    assume "3 \<le> i \<and> i < 6"
    then have "i = 3 \<or> i = 4 \<or> i = 5" by auto
    then show "slots radius_like ! i = []" by (auto simp: radius_like_def)
  qed
  have v: "series_value 2 radius_like = 17"
    by (simp add: series_value_def radius_like_def term_value_def lessThan_Suc eval_nat_numeral)
  have "sum_series 2 radius_like = Inr 17"
    by (simp add: sum_series_value v)
  with e sum_series_fixed_count [of 2 radius_like 3] show ?thesis
    by simp
qed

lemma Mod1_range: "0 \<le> Mod1 a \<and> Mod1 a < 2 * pi"
  unfolding Mod1_def by (rule PMod_range) simp

lemma Mod1_mod_2pi: "Mod1 a = mod_2pi a"
  by (simp add: Mod1_def PMod_2pi)

text \<open>
  C6.  \<^verbatim>\<open>Position2000\<close> never panics and returns the three polynomial values at the reduced
  time, the latitude and the radius as they are and the longitude reduced: the longitude
  returned is the polynomial value modulo \<open>2\<pi>\<close> (it differs from it by a multiple of
  \<open>2\<pi>\<close>) and lies in \<open>[0, 2\<pi>)\<close>.
\<close>

theorem Position2000_reduces_longitude_only:
  "Position2000 vt jde =
     Inr (Mod1 (series_value (reduced_time jde) (planet_l vt)),
          series_value (reduced_time jde) (planet_b vt),
          series_value (reduced_time jde) (planet_r vt)) \<and>
   0 \<le> Mod1 (series_value (reduced_time jde) (planet_l vt)) \<and>
   Mod1 (series_value (reduced_time jde) (planet_l vt)) < 2 * pi \<and>
   Mod1 (series_value (reduced_time jde) (planet_l vt)) =
     mod_2pi (series_value (reduced_time jde) (planet_l vt)) \<and>
   (\<exists>k::int. Mod1 (series_value (reduced_time jde) (planet_l vt)) =
      series_value (reduced_time jde) (planet_l vt) + 2 * pi * of_int k)"
proof -
  have \<tau>: "J2000Century jde * 0.1 = reduced_time jde"
    by (simp add: reduced_time_def)
  have "Position2000 vt jde =
     Inr (Mod1 (series_value (reduced_time jde) (planet_l vt)),
          series_value (reduced_time jde) (planet_b vt),
          series_value (reduced_time jde) (planet_r vt))"
    unfolding Position2000_def Let_def \<tau> by (simp add: sum_series_value)
  moreover have "\<exists>k::int. Mod1 (series_value (reduced_time jde) (planet_l vt)) =
      series_value (reduced_time jde) (planet_l vt) + 2 * pi * of_int k"
    unfolding Mod1_mod_2pi by (rule mod_2pi_congruent)
  ultimately show ?thesis
    using Mod1_range [of "series_value (reduced_time jde) (planet_l vt)"]
      Mod1_mod_2pi [of "series_value (reduced_time jde) (planet_l vt)"]
    by simp
qed

text \<open>
  An evaluation at the epoch J2000, where \<open>\<tau> = 0\<close>: each table gives 8; the longitude
  comes back reduced, the latitude and the radius do not.
\<close>

lemma Mod1_8: "Mod1 8 = 8 - 2 * pi"
proof -
  have "1 \<le> 8 / (2 * pi)" using pi_less_4 by simp
  moreover have "8 / (2 * pi) < 2" using pi_ge_three by (simp add: divide_less_eq)
  ultimately have "\<lfloor>8 / (2 * pi)\<rfloor> = 1" by (simp add: floor_eq_iff)
  moreover have "0 \<le> 8 - 2 * pi" using pi_less_4 by simp
  ultimately show ?thesis
    by (simp add: Mod1_def PMod_def math_Mod_def trunc_def Let_def)
qed

lemma series_value_eights: "series_value 0 eights = 8"
  by (simp add: series_value_def eights_def term_value_def lessThan_Suc eval_nat_numeral)

lemma Position2000_example:
  "Position2000 (V87Planet eights eights eights) J2000 = Inr (8 - 2 * pi, 8, 8)"
proof -
  have "reduced_time J2000 = 0"
    by (simp add: reduced_time_def J2000Century_def)
  then have "J2000Century J2000 * 0.1 = 0"
    by (simp add: reduced_time_def)
  then show ?thesis
    unfolding Position2000_def Let_def
    by (simp add: sum_series_value series_value_eights Mod1_8)
qed

section \<open>Properties of the orbit model\<close>

text \<open>
  C9.  The derived quantities of an orbit are a function of its elements: two orbits
  constructed from elements with the same semimajor axis, inclination and node (equal
  elements in particular) have the same mean daily motion, the same three angles and the
  same three magnitudes.  \<^verbatim>\<open>NewOrbit\<close> reads nothing but its argument and constants.
\<close>

theorem NewOrbit_pure:
  assumes "Axis k1 = Axis k2" "Inc k1 = Inc k2" "Node k1 = Node k2"
  shows "orb_n (NewOrbit k1) = orb_n (NewOrbit k2) \<and>
         orb_A (NewOrbit k1) = orb_A (NewOrbit k2) \<and>
         orb_B (NewOrbit k1) = orb_B (NewOrbit k2) \<and>
         orb_C (NewOrbit k1) = orb_C (NewOrbit k2) \<and>
         orb_a (NewOrbit k1) = orb_a (NewOrbit k2) \<and>
         orb_b (NewOrbit k1) = orb_b (NewOrbit k2) \<and>
         orb_c (NewOrbit k1) = orb_c (NewOrbit k2)"
  using assms by (simp add: NewOrbit_def Let_def)

theorem NewOrbit_pure_witness:
  "orb_n (NewOrbit unit_circle) = orb_n (NewOrbit (unit_circle\<lparr>Ecc := 0.5, TimeP := 2451545\<rparr>)) \<and>
   orb_A (NewOrbit unit_circle) = orb_A (NewOrbit (unit_circle\<lparr>Ecc := 0.5, TimeP := 2451545\<rparr>)) \<and>
   orb_B (NewOrbit unit_circle) = orb_B (NewOrbit (unit_circle\<lparr>Ecc := 0.5, TimeP := 2451545\<rparr>)) \<and>
   orb_C (NewOrbit unit_circle) = orb_C (NewOrbit (unit_circle\<lparr>Ecc := 0.5, TimeP := 2451545\<rparr>)) \<and>
   orb_a (NewOrbit unit_circle) = orb_a (NewOrbit (unit_circle\<lparr>Ecc := 0.5, TimeP := 2451545\<rparr>)) \<and>
   orb_b (NewOrbit unit_circle) = orb_b (NewOrbit (unit_circle\<lparr>Ecc := 0.5, TimeP := 2451545\<rparr>)) \<and>
   orb_c (NewOrbit unit_circle) = orb_c (NewOrbit (unit_circle\<lparr>Ecc := 0.5, TimeP := 2451545\<rparr>)) \<and>
   orb_n (NewOrbit unit_circle) = K \<and> orb_a (NewOrbit unit_circle) = 1"
proof -
  have "orb_n (NewOrbit unit_circle) = K" "orb_a (NewOrbit unit_circle) = 1"
    by (simp_all add: NewOrbit_def unit_circle_def Let_def Hypot_def)
  then show ?thesis
    using NewOrbit_pure [of unit_circle "unit_circle\<lparr>Ecc := 0.5, TimeP := 2451545\<rparr>"]
    by simp
qed

section \<open>Properties of the loader\<close>

text \<open>
  A header with the expected series index, version and body that declares zero terms:
  \<^verbatim>\<open>parse\<close> comes back to the same line with the same state, and never returns.
\<close>

lemma parse_zero_count_diverges:
  assumes n: "n < length lines"
    and len: "132 \<le> length (lines ! n)"
    and ic: "lines ! n ! 41 = ic"
    and ver: "lines ! n ! 17 = fileVersion"
    and body: "index b7 ibody = Inr body" "slice (lines ! n) 22 29 = body"
    and zero: "Atoi (TrimSpace (slice (lines ! n) 60 67)) = Some 0"
  shows "parse pf ic ibody lines au c n = None"
proof -
  have never: "parse pf ic ibody lines au c n \<noteq> Some y" for y
  proof
    assume eq: "parse pf ic ibody lines au c n = Some y"
    have "\<not> (ic = ic \<and> ibody = ibody \<and> lines = lines \<and> n = n)"
    proof (rule parse.raw_induct
        [where P = "\<lambda>pf' ic' ibody' lines' au' c' n' y.
                      \<not> (ic' = ic \<and> ibody' = ibody \<and> lines' = lines \<and> n' = n)", OF _ eq],
        goal_cases)
      case (1 f pf' ic' ibody' lines' au' c' n' r)
      show ?case
      proof
        assume same: "ic' = ic \<and> ibody' = ibody \<and> lines' = lines \<and> n' = n"
        with 1(2) n len ic ver body zero have "f pf' ic' ibody' lines' au' c' n' = Some r"
          by (simp add: Let_def)
        from 1(1) [OF this] same show False by simp
      qed
    qed
    then show False by simp
  qed
  then show ?thesis by (cases "parse pf ic ibody lines au c n") auto
qed

lemma header_length: "length count = 7 \<Longrightarrow> length (header ic it count) = 132"
  by (simp add: header_def)

lemma header_fields:
  assumes "length count = 7"
  shows "header ic it count ! 17 = fileVersion"
    and "slice (header ic it count) 22 29 = ''EARTH  ''"
    and "header ic it count ! 41 = ic"
    and "header ic it count ! 59 = it"
    and "slice (header ic it count) 60 67 = count"
  using assms by (simp_all add: header_def slice_def nth_append fileVersion_def)

text \<open>White space of one, two and three bytes is trimmed at both ends; other bytes stay.\<close>

lemma TrimSpace_examples:
  "TrimSpace ''   -12  '' = ''-12''"
  "TrimSpace ([CHR 0xC2, CHR 0xA0] @ '' 7'' @ [CHR 0xE2, CHR 0x80, CHR 0x83]) = ''7''"
  "TrimSpace ([CHR 0xA0, CHR 0xC2] @ ''7'') = [CHR 0xA0, CHR 0xC2] @ ''7''"
  by (simp_all add: TrimSpace_def isSpace_def space2_def space3_def)

lemma Atoi_0: "Atoi (TrimSpace ''      0'') = Some 0"
  by (simp add: Atoi_def TrimSpace_def isSpace_def space2_def space3_def isDigit_def
      digits_value_def)

lemma Atoi_1: "Atoi (TrimSpace ''      1'') = Some 1"
  by (simp add: Atoi_def TrimSpace_def isSpace_def space2_def space3_def isDigit_def
      digits_value_def)

lemma Atoi_5: "Atoi (TrimSpace ''      5'') = Some 5"
  by (simp add: Atoi_def TrimSpace_def isSpace_def space2_def space3_def isDigit_def
      digits_value_def)

lemma split_from_no_newline:
  "CHR 0x0A \<notin> set s \<Longrightarrow> split_from cur s = [cur @ s]"
  by (induction s arbitrary: cur) auto

lemma split_from_newline:
  "CHR 0x0A \<notin> set s \<Longrightarrow> split_from cur (s @ CHR 0x0A # t) = (cur @ s) # split_from [] t"
  by (induction s arbitrary: cur) auto

lemma header_no_newline:
  "CHR 0x0A \<notin> set count \<Longrightarrow> ic \<noteq> CHR 0x0A \<Longrightarrow> it \<noteq> CHR 0x0A \<Longrightarrow>
   CHR 0x0A \<notin> set (header ic it count)"
  by (auto simp add: header_def)

lemma index_b7_Earth: "index b7 Earth = Inr ''EARTH  ''"
  by (simp add: index_def b7_def Earth_def)

lemma ext_Earth: "ext ! nat Earth = ''ear''"
  by (simp add: ext_def Earth_def)

lemma Earth_valid: "\<not> (Earth < 0 \<or> Earth \<ge> nPlanets)"
  by (simp add: Earth_def nPlanets_def)

text \<open>A call with a valid planet reads the file of the planet, whatever it returns.\<close>

lemma LoadPlanetPath_valid_reads:
  assumes "0 \<le> ibody" "ibody < 8"
    and "LoadPlanetPath pf ibody path w = Some (Inr (r, w'))"
  shows "reads w' = reads w @ [path @ ''/VSOP87B.'' @ ext ! nat ibody]"
  using assms
  by (auto simp add: LoadPlanetPath_def nPlanets_def ReadFile_def Let_def
      split: sum.splits option.splits prod.splits)

text \<open>
  A load that succeeds: one block of one term for the longitude, with a \<open>pf\<close> that reads 1
  from every field.
\<close>

lemma parse_at_end:
  "length lines \<le> n \<Longrightarrow> parse pf ic ibody lines au c n = Some (Inr (c, n, None))"
  by (subst parse.simps) simp

lemma length_data_line: "length data_line = 132"
  by (simp add: data_line_def)

lemma parse_one_block:
  "parse (\<lambda>s. Some 1) (CHR ''1'') Earth [header (CHR ''1'') (CHR ''0'') ''      1'', data_line]
     False zero_coeff 0
   = Some (Inr (Coeff [Abc 1 1 1] [] [] [] [] [], 2, None))"
proof -
  have it: "byte_sub (CHR ''0'') (CHR ''0'') = 0"
    by (simp add: byte_sub_def)
  have sl: "slice [header (CHR ''1'') (CHR ''0'') ''      1'', data_line] (Suc 0) (Suc (Suc 0))
              = [data_line]"
    by (simp add: slice_def)
  show ?thesis
    by (subst parse.simps)
       (simp add: header_length header_fields Atoi_1 index_b7_Earth Let_def sl it
          length_data_line zero_coeff_def parse_at_end)
qed

lemma LoadPlanetPath_one_block:
  "LoadPlanetPath (\<lambda>s. Some 1) Earth ''vsop''
     (one_file ''vsop/VSOP87B.ear''
        (header (CHR ''1'') (CHR ''0'') ''      1'' @ CHR 0x0A # data_line))
   = Some (Inr ((Some (V87Planet (Coeff [Abc 1 1 1] [] [] [] [] []) zero_coeff zero_coeff), None),
        (one_file ''vsop/VSOP87B.ear''
           (header (CHR ''1'') (CHR ''0'') ''      1'' @ CHR 0x0A # data_line))
          \<lparr>reads := [''vsop/VSOP87B.ear'']\<rparr>))"
proof -
  let ?h = "header (CHR ''1'') (CHR ''0'') ''      1''"
  have "CHR 0x0A \<notin> set data_line" by (simp add: data_line_def)
  then have "split_from [] data_line = [data_line]"
    using split_from_no_newline [of data_line "[]"] by simp
  then have split: "Split (?h @ CHR 0x0A # data_line) = [?h, data_line]"
    unfolding Split_def using split_from_newline [of ?h "[]" data_line]
    by (simp add: header_no_newline)
  show ?thesis
    using Earth_valid
    by (simp add: LoadPlanetPath_def ReadFile_def one_file_def ext_Earth split
        parse_one_block parse_at_end)
qed

text \<open>
  C2.  A block whose header declares zero terms is claimed to be valid, to give an empty
  series, and to let the load go on and succeed.  On the file of the Earth that holds one
  such header line, \<^verbatim>\<open>LoadPlanetPath\<close> does not return: the branch \<^verbatim>\<open>in == 0\<close> of \<^verbatim>\<open>parse\<close>
  continues the loop without advancing \<open>n\<close>.
\<close>

theorem LoadPlanetPath_zero_terms_diverges:
  "LoadPlanetPath pf Earth ''vsop''
     (one_file ''vsop/VSOP87B.ear'' (header (CHR ''1'') (CHR ''0'') ''      0'' @ [CHR 0x0A])) = None"
proof -
  let ?h = "header (CHR ''1'') (CHR ''0'') ''      0''"
  have split: "Split (?h @ [CHR 0x0A]) = [?h, []]"
    unfolding Split_def using split_from_newline [of ?h "[]" "[]"]
    by (simp add: header_no_newline)
  have "parse pf (CHR ''1'') Earth [?h, []] False zero_coeff 0 = None"
    by (rule parse_zero_count_diverges [where body = "''EARTH  ''"])
       (simp_all add: header_length header_fields Atoi_0 index_b7_Earth)
  then show ?thesis
    using Earth_valid
    by (simp add: LoadPlanetPath_def ReadFile_def one_file_def ext_Earth split)
qed

text \<open>
  C3.  A declared term count above the number of remaining lines is claimed to give a
  premature-end error with the line number.  On a file that is one header line declaring
  one term, no line remains, and \<^verbatim>\<open>LoadPlanetPath\<close> panics on the slice
  \<^verbatim>\<open>lines[n : n+in]\<close>: the test \<^verbatim>\<open>in > len(lines)-n\<close> counts the header line among the
  remaining ones.  With five terms declared the test fires, and the error it returns,
  \<^verbatim>\<open>errors.New("Unexpected end of file.")\<close>, holds no line number.
\<close>

theorem LoadPlanetPath_premature_end:
  "LoadPlanetPath pf Earth ''vsop''
     (one_file ''vsop/VSOP87B.ear'' (header (CHR ''1'') (CHR ''0'') ''      1''))
     = Some (Inl SliceBoundsOutOfRange) \<and>
   LoadPlanetPath pf Earth ''vsop''
     (one_file ''vsop/VSOP87B.ear'' (header (CHR ''1'') (CHR ''0'') ''      5''))
     = Some (Inr ((None, Some UnexpectedEOF),
          (one_file ''vsop/VSOP87B.ear'' (header (CHR ''1'') (CHR ''0'') ''      5''))
            \<lparr>reads := [''vsop/VSOP87B.ear'']\<rparr>))"
proof -
  let ?h1 = "header (CHR ''1'') (CHR ''0'') ''      1''"
  let ?h5 = "header (CHR ''1'') (CHR ''0'') ''      5''"
  have split1: "Split ?h1 = [?h1]"
    unfolding Split_def using split_from_no_newline [of ?h1 "[]"]
    by (simp add: header_no_newline)
  have split5: "Split ?h5 = [?h5]"
    unfolding Split_def using split_from_no_newline [of ?h5 "[]"]
    by (simp add: header_no_newline)
  have p1: "parse pf (CHR ''1'') Earth [?h1] False zero_coeff 0 = Some (Inl SliceBoundsOutOfRange)"
    by (subst parse.simps)
       (simp add: header_length header_fields Atoi_1 index_b7_Earth Let_def)
  have p5: "parse pf (CHR ''1'') Earth [?h5] False zero_coeff 0
              = Some (Inr (zero_coeff, 0, Some UnexpectedEOF))"
    by (subst parse.simps)
       (simp add: header_length header_fields Atoi_5 index_b7_Earth Let_def)
  show ?thesis
    using Earth_valid
    by (simp add: LoadPlanetPath_def ReadFile_def one_file_def ext_Earth split1 split5 p1 p5)
qed

text \<open>
  C10.  With a planet index below 0 or from 8 on, \<^verbatim>\<open>LoadPlanetPath\<close> returns the error
  \<^verbatim>\<open>"Invalid planet."\<close> and no model, and the file system is as it was: nothing was read.
\<close>

theorem LoadPlanetPath_invalid_planet:
  "ibody < 0 \<or> 8 \<le> ibody \<Longrightarrow>
   LoadPlanetPath pf ibody path w = Some (Inr ((None, Some InvalidPlanet), w))"
  by (auto simp add: LoadPlanetPath_def nPlanets_def)

theorem LoadPlanetPath_invalid_planet_witness:
  "((8::int) < 0 \<or> (8::int) \<le> 8) \<and>
   LoadPlanetPath (\<lambda>s. None) 8 ''vsop'' (one_file ''vsop/VSOP87B.ear'' [])
     = Some (Inr ((None, Some InvalidPlanet), one_file ''vsop/VSOP87B.ear'' [])) \<and>
   reads (one_file ''vsop/VSOP87B.ear'' []) = [] \<and>
   LoadPlanetPath (\<lambda>s. None) (- 1) ''vsop'' (one_file ''vsop/VSOP87B.ear'' [])
     = Some (Inr ((None, Some InvalidPlanet), one_file ''vsop/VSOP87B.ear'' []))"
  using LoadPlanetPath_invalid_planet [of 8 "\<lambda>s. None" "''vsop''" "one_file ''vsop/VSOP87B.ear'' []"]
    LoadPlanetPath_invalid_planet [of "- 1" "\<lambda>s. None" "''vsop''" "one_file ''vsop/VSOP87B.ear'' []"]
  by (simp add: one_file_def)

end
